theory Spec2Isabelle
  imports Complex_Main
begin

section \<open>Python values\<close>

text \<open>
  The shadow-engine prototype (\<^verbatim>\<open>engine_core.py\<close>, \<^verbatim>\<open>service_cli.py\<close>,
  \<^verbatim>\<open>engine_server.py\<close>) works on JSON payloads, on bounding boxes of floats and on
  geometries of the shapely library.

  A Python float is modelled by its exact value: a finite float is a real number, and
  arithmetic on finite floats is the arithmetic of the reals (no rounding, no overflow).
  The three non-finite floats are separate constructors, since \<^verbatim>\<open>float("inf")\<close> and
  \<^verbatim>\<open>float("nan")\<close> succeed in Python.
\<close>

datatype pyfloat = Fin real | PosInf | NegInf | NaN

text \<open>
  A value as \<^verbatim>\<open>json.load\<close> produces it. A dict is the list of its items, in insertion
  order, read with \<open>map_of\<close>.
\<close>

datatype pyval =
    PNone
  | PBool bool
  | PInt int
  | PFloat pyfloat
  | PStr string
  | PList "pyval list"
  | PDict "(string \<times> pyval) list"

text \<open>
  The exceptions the modelled code raises or lets through. \<open>ValueError\<close> and
  \<open>RuntimeError\<close> carry their message; \<open>LibraryError\<close> stands for whatever an external
  library call (shapely, the building backend, pybdshadow) raises.
\<close>

datatype py_error =
    ZeroDivisionError
  | KeyError string
  | TypeError
  | AttributeError
  | ValueError string
  | RuntimeError string
  | LibraryError string

text \<open>The two conditions the specification names.\<close>

definition UnsupportedGeometryKind :: py_error where
  "UnsupportedGeometryKind = ValueError ''Unsupported geometry payload''"

definition NoBuildingsError :: py_error where
  "NoBuildingsError =
     RuntimeError ''No building features returned for the specified bounds/geometry''"

text \<open>Truth value of a Python object (\<^verbatim>\<open>if geom:\<close>, \<^verbatim>\<open>x or default\<close>).\<close>

fun py_truthy :: "pyval \<Rightarrow> bool" where
  "py_truthy PNone = False"
| "py_truthy (PBool b) = b"
| "py_truthy (PInt i) = (i \<noteq> 0)"
| "py_truthy (PFloat (Fin x)) = (x \<noteq> 0)"
| "py_truthy (PFloat _) = True"
| "py_truthy (PStr s) = (s \<noteq> [])"
| "py_truthy (PList xs) = (xs \<noteq> [])"
| "py_truthy (PDict d) = (d \<noteq> [])"

text \<open>\<^verbatim>\<open>d.get(key)\<close> on a dict given by its items: \<^verbatim>\<open>None\<close> when the key is absent.\<close>

definition dict_get :: "(string \<times> pyval) list \<Rightarrow> string \<Rightarrow> pyval" where
  "dict_get d k = (case map_of d k of None \<Rightarrow> PNone | Some v \<Rightarrow> v)"

text \<open>
  \<^verbatim>\<open>x.get(key)\<close> on an arbitrary value: only a dict has the method, everything else of
  JSON raises \<^verbatim>\<open>AttributeError\<close>.
\<close>

fun py_get :: "pyval \<Rightarrow> string \<Rightarrow> py_error + pyval" where
  "py_get (PDict d) k = Inr (dict_get d k)"
| "py_get _ k = Inl AttributeError"

text \<open>\<^verbatim>\<open>x[key]\<close> with a string key: \<^verbatim>\<open>KeyError\<close> on a dict without it.\<close>

fun py_subscript :: "pyval \<Rightarrow> string \<Rightarrow> py_error + pyval" where
  "py_subscript (PDict d) k = (case map_of d k of None \<Rightarrow> Inl (KeyError k) | Some v \<Rightarrow> Inr v)"
| "py_subscript _ k = Inl TypeError"

text \<open>
  \<^verbatim>\<open>for x in v\<close>: a list yields its items, a dict its keys, a string its characters; the
  other JSON values are not iterable.
\<close>

fun py_iter :: "pyval \<Rightarrow> py_error + pyval list" where
  "py_iter (PList xs) = Inr xs"
| "py_iter (PDict d) = Inr (map (\<lambda>kv. PStr (fst kv)) d)"
| "py_iter (PStr s) = Inr (map (\<lambda>c. PStr [c]) s)"
| "py_iter _ = Inl TypeError"

text \<open>Float division: Python raises on a zero divisor.\<close>

definition py_truediv :: "real \<Rightarrow> real \<Rightarrow> py_error + real" where
  "py_truediv a b = (if b = 0 then Inl ZeroDivisionError else Inr (a / b))"

section \<open>The built-in \<^verbatim>\<open>float()\<close>\<close>

text \<open>
  \<^verbatim>\<open>float(s)\<close> on a string, for ASCII text: surrounding whitespace is stripped,
  underscores are accepted between two digits only, and what is left is an optional sign
  followed by \<^verbatim>\<open>inf\<close>, \<^verbatim>\<open>infinity\<close> or \<^verbatim>\<open>nan\<close> in any case, or by a decimal literal
  (digits with an optional point, at least one digit, and an optional exponent).
  \<open>None\<close> is the \<^verbatim>\<open>ValueError\<close>.
\<close>

definition is_space :: "char \<Rightarrow> bool" where
  "is_space c = (c \<in> set [CHR '' '', CHR 0x09, CHR 0x0A, CHR 0x0B, CHR 0x0C, CHR 0x0D,
                            CHR 0x1C, CHR 0x1D, CHR 0x1E, CHR 0x1F])"

definition strip :: "string \<Rightarrow> string" where
  "strip s = rev (dropWhile is_space (rev (dropWhile is_space s)))"

definition digit_val :: "char \<Rightarrow> nat option" where
  "digit_val c = map_of (zip ''0123456789'' [0, 1, 2, 3, 4, 5, 6, 7, 8, 9]) c"

definition is_digit :: "char \<Rightarrow> bool" where
  "is_digit c = (digit_val c \<noteq> None)"

text \<open>
  The underscore pass of CPython: it walks the text with the previous character in
  hand, refuses an underscore that does not follow a digit, a non-digit that follows an
  underscore and an underscore at the end, and drops the accepted ones.
\<close>

fun drop_underscores :: "char option \<Rightarrow> string \<Rightarrow> string option" where
  "drop_underscores prev [] = (if prev = Some CHR ''_'' then None else Some [])"
| "drop_underscores prev (c # cs) =
     (if c = CHR ''_'' then
        (case prev of
           None \<Rightarrow> None
         | Some p \<Rightarrow> if is_digit p then drop_underscores (Some c) cs else None)
      else if prev = Some CHR ''_'' \<and> \<not> is_digit c then None
      else map_option (\<lambda>r. c # r) (drop_underscores (Some c) cs))"

definition ascii_lower :: "char \<Rightarrow> char" where
  "ascii_lower c =
     (if c = CHR ''I'' then CHR ''i'' else if c = CHR ''N'' then CHR ''n''
      else if c = CHR ''F'' then CHR ''f'' else if c = CHR ''T'' then CHR ''t''
      else if c = CHR ''Y'' then CHR ''y'' else if c = CHR ''A'' then CHR ''a''
      else c)"

text \<open>The number a digit string denotes, most significant digit first.\<close>

definition digits_val :: "string \<Rightarrow> nat" where
  "digits_val ds = foldl (\<lambda>acc c. 10 * acc + (case digit_val c of None \<Rightarrow> 0 | Some d \<Rightarrow> d)) 0 ds"

text \<open>An optional sign: whether it is a minus, and the rest of the text.\<close>

fun take_sign :: "string \<Rightarrow> bool \<times> string" where
  "take_sign [] = (False, [])"
| "take_sign (c # cs) =
     (if c = CHR ''-'' then (True, cs) else if c = CHR ''+'' then (False, cs)
      else (False, c # cs))"

text \<open>
  The exponent part: \<^verbatim>\<open>e\<close> or \<^verbatim>\<open>E\<close>, an optional sign and at least one digit, up to
  the end of the text; no text at all is the exponent 0.
\<close>

definition parse_exponent :: "string \<Rightarrow> int option" where
  "parse_exponent s =
     (case s of
        [] \<Rightarrow> Some 0
      | c # cs \<Rightarrow>
          if c = CHR ''e'' \<or> c = CHR ''E'' then
            (let (neg, ds) = take_sign cs in
             if ds \<noteq> [] \<and> list_all is_digit ds
             then Some (if neg then - int (digits_val ds) else int (digits_val ds))
             else None)
          else None)"

definition scale10 :: "nat \<Rightarrow> int \<Rightarrow> real" where
  "scale10 m e = (if 0 \<le> e then real m * 10 ^ nat e else real m / 10 ^ nat (- e))"

definition parse_decimal :: "string \<Rightarrow> real option" where
  "parse_decimal s =
     (let ip = takeWhile is_digit s;
          r1 = dropWhile is_digit s;
          r2 = (case r1 of [] \<Rightarrow> [] | c # cs \<Rightarrow> if c = CHR ''.'' then cs else r1);
          fp = (if r2 = r1 then [] else takeWhile is_digit r2);
          r3 = (if r2 = r1 then r1 else dropWhile is_digit r2)
      in if ip = [] \<and> fp = [] then None
         else (case parse_exponent r3 of
                 None \<Rightarrow> None
               | Some e \<Rightarrow> Some (scale10 (digits_val (ip @ fp)) (e - int (length fp)))))"

definition float_of_str :: "string \<Rightarrow> pyfloat option" where
  "float_of_str s =
     (case drop_underscores None (strip s) of
        None \<Rightarrow> None
      | Some t \<Rightarrow>
          (let (neg, body) = take_sign t; word = map ascii_lower body in
           if word = ''inf'' \<or> word = ''infinity'' then Some (if neg then NegInf else PosInf)
           else if word = ''nan'' then Some NaN
           else map_option (\<lambda>x. Fin (if neg then - x else x)) (parse_decimal body)))"

text \<open>
  \<^verbatim>\<open>float(value)\<close> under \<^verbatim>\<open>except (TypeError, ValueError)\<close>: \<open>None\<close> when one of the
  two is raised. A bool is an int, a list or a dict is a \<^verbatim>\<open>TypeError\<close>. (Python
  raises \<^verbatim>\<open>OverflowError\<close> on an int beyond the range of a double; the reals have no
  such bound, so the conversion of an int always succeeds here.)
\<close>

fun py_float :: "pyval \<Rightarrow> pyfloat option" where
  "py_float PNone = None"
| "py_float (PBool b) = Some (Fin (if b then 1 else 0))"
| "py_float (PInt i) = Some (Fin (real_of_int i))"
| "py_float (PFloat x) = Some x"
| "py_float (PStr s) = float_of_str s"
| "py_float (PList xs) = None"
| "py_float (PDict d) = None"

text \<open>\<^verbatim>\<open>x * c\<close> for a float \<open>x\<close> and a positive finite constant \<open>c\<close>.\<close>

fun fmul_pos :: "pyfloat \<Rightarrow> real \<Rightarrow> pyfloat" where
  "fmul_pos (Fin x) c = Fin (x * c)"
| "fmul_pos PosInf c = PosInf"
| "fmul_pos NegInf c = NegInf"
| "fmul_pos NaN c = NaN"

section \<open>Height resolution (\<^verbatim>\<open>engine_core.extract_height\<close>)\<close>

text \<open>
  The loop over the four candidate keys, as a recursion over the keys still to try:
  a missing or \<^verbatim>\<open>None\<close> value and a value \<^verbatim>\<open>float()\<close> refuses are skipped.
\<close>

fun extract_height_from :: "string list \<Rightarrow> (string \<rightharpoonup> pyval) \<Rightarrow> pyfloat" where
  "extract_height_from [] properties = Fin 12"
| "extract_height_from (key # keys) properties =
     (case properties key of
        None \<Rightarrow> extract_height_from keys properties
      | Some PNone \<Rightarrow> extract_height_from keys properties
      | Some v \<Rightarrow>
          (case py_float v of
             None \<Rightarrow> extract_height_from keys properties
           | Some height \<Rightarrow> if key = ''levels'' then fmul_pos height 3.5 else height))"

definition height_keys :: "string list" where
  "height_keys = [''height'', ''HEIGHT'', ''height_mean'', ''levels'']"

definition extract_height :: "(string \<rightharpoonup> pyval) \<Rightarrow> pyfloat" where
  "extract_height properties = extract_height_from height_keys properties"


section \<open>Bounding boxes and the geometry library\<close>

text \<open>
  A bounding box is the dict \<^verbatim>\<open>{"west", "south", "east", "north"}\<close> of floats that
  \<^verbatim>\<open>validate_payload\<close> and the pydantic model \<^verbatim>\<open>BoundingBox\<close> build: all four keys
  are present.
\<close>

record bounds =
  west :: real
  south :: real
  east :: real
  north :: real

text \<open>
  The calls into shapely and geopandas, over an arbitrary type \<open>'g\<close> of geometries. The
  code under verification is a client of this library: every theorem below holds for
  whatever functions are put here.
  \<^item> \<open>shape\<close>: \<^verbatim>\<open>shapely.geometry.shape\<close>, from a GeoJSON-like value; it may raise.
  \<^item> \<open>mapping\<close>: \<^verbatim>\<open>shapely.geometry.mapping\<close>, back to a GeoJSON-like dict.
  \<^item> \<open>box\<close>: \<^verbatim>\<open>shapely.geometry.box(minx, miny, maxx, maxy)\<close>.
  \<^item> \<open>unary_union\<close>: \<^verbatim>\<open>shapely.ops.unary_union\<close> of a sequence of geometries.
  \<^item> \<open>intersection\<close>, \<open>intersects\<close>, \<open>is_empty\<close>: the geometry methods.
  \<^item> \<open>contains\<close>: \<^verbatim>\<open>g.contains(Point(lon, lat))\<close>.
  \<^item> \<open>area_3857\<close>: \<^verbatim>\<open>GeoSeries([g], crs="EPSG:4326").to_crs(3857).area.iloc[0]\<close>,
    the area of one geometry after reprojection (a series of one element is never empty).
\<close>

record 'g shapely =
  shape :: "pyval \<Rightarrow> py_error + 'g"
  mapping :: "'g \<Rightarrow> pyval"
  box :: "real \<Rightarrow> real \<Rightarrow> real \<Rightarrow> real \<Rightarrow> 'g"
  unary_union :: "'g list \<Rightarrow> 'g"
  intersection :: "'g \<Rightarrow> 'g \<Rightarrow> 'g"
  intersects :: "'g \<Rightarrow> 'g \<Rightarrow> bool"
  is_empty :: "'g \<Rightarrow> bool"
  contains :: "'g \<Rightarrow> real \<times> real \<Rightarrow> bool"
  area_3857 :: "'g \<Rightarrow> real"

text \<open>
  A loop that appends one result per item and stops at the first exception.
\<close>

fun traverse :: "('a \<Rightarrow> py_error + 'b) \<Rightarrow> 'a list \<Rightarrow> py_error + 'b list" where
  "traverse f [] = Inr []"
| "traverse f (x # xs) =
     (case f x of
        Inl e \<Rightarrow> Inl e
      | Inr y \<Rightarrow> (case traverse f xs of Inl e \<Rightarrow> Inl e | Inr ys \<Rightarrow> Inr (y # ys)))"

section \<open>Coverage estimator (\<^verbatim>\<open>engine_core.calculate_shadow_coverage\<close>)\<close>

record coverage =
  bbox_area_sqm :: real
  shadow_area_sqm :: real
  coverage_percent :: real

text \<open>
  The shadow layer is the geometry column of the GeoDataFrame, one geometry per row;
  \<^verbatim>\<open>shadows.empty\<close> is the empty list.
\<close>

definition calculate_shadow_coverage ::
  "'g shapely \<Rightarrow> bounds \<Rightarrow> 'g list \<Rightarrow> py_error + coverage" where
  "calculate_shadow_coverage lib b shadows =
     (let bbox_geom = box lib (west b) (south b) (east b) (north b);
          bbox_area = area_3857 lib bbox_geom
      in if bbox_area \<le> 0 \<or> shadows = [] then
           Inr \<lparr>bbox_area_sqm = max bbox_area 0, shadow_area_sqm = 0, coverage_percent = 0\<rparr>
         else
           (let union = unary_union lib shadows in
            if is_empty lib union then
              Inr \<lparr>bbox_area_sqm = bbox_area, shadow_area_sqm = 0, coverage_percent = 0\<rparr>
            else
              (let clipped = intersection lib union bbox_geom in
               if is_empty lib clipped then
                 Inr \<lparr>bbox_area_sqm = bbox_area, shadow_area_sqm = 0, coverage_percent = 0\<rparr>
               else
                 (let shadow_area = area_3857 lib clipped in
                  if bbox_area = 0 then
                    Inr \<lparr>bbox_area_sqm = bbox_area, shadow_area_sqm = shadow_area,
                         coverage_percent = 0\<rparr>
                  else
                    (case py_truediv shadow_area bbox_area of
                       Inl e \<Rightarrow> Inl e
                     | Inr q \<Rightarrow>
                         Inr \<lparr>bbox_area_sqm = bbox_area, shadow_area_sqm = shadow_area,
                              coverage_percent = max 0 (min 100 (q * 100))\<rparr>)))))"

section \<open>Grid sampler (\<^verbatim>\<open>service_cli.sample_points\<close>, \<^verbatim>\<open>analyse_samples\<close>)\<close>

definition sample_points :: "bounds \<Rightarrow> int \<Rightarrow> py_error + (real \<times> real) list" where
  "sample_points b grid0 =
     (let grid = max 3 (min grid0 25);
          lon_span = east b - west b;
          lat_span = north b - south b
      in if lon_span \<le> 0 \<or> lat_span \<le> 0 then Inr []
         else
           (case py_truediv lon_span (of_int (grid + 1)) of
              Inl e \<Rightarrow> Inl e
            | Inr step_lon \<Rightarrow>
                (case py_truediv lat_span (of_int (grid + 1)) of
                   Inl e \<Rightarrow> Inl e
                 | Inr step_lat \<Rightarrow>
                     Inr (concat (map (\<lambda>i. map (\<lambda>j. (west b + step_lon * of_int i,
                                                      south b + step_lat * of_int j))
                                               [1..grid])
                                      [1..grid])))))"

record sample_metrics =
  sampleCount :: int
  avgShadowPercent :: real
  avgSunlightHours :: real

record samples =
  features :: "pyval list"
  metrics :: sample_metrics

definition hours_shadow :: real where
  "hours_shadow = 3"

definition hours_sun :: real where
  "hours_sun = 10"

text \<open>
  \<^verbatim>\<open>union_geom.contains(point) if union_geom else False\<close>: \<^verbatim>\<open>union_geom\<close> is
  \<^verbatim>\<open>None\<close> for an empty layer, and a geometry is true when it is not empty.
\<close>

definition in_shadow :: "'g shapely \<Rightarrow> 'g option \<Rightarrow> real \<times> real \<Rightarrow> bool" where
  "in_shadow lib union_geom p =
     (case union_geom of
        None \<Rightarrow> False
      | Some u \<Rightarrow> if is_empty lib u then False else contains lib u p)"

text \<open>The feature the loop body appends for one point.\<close>

definition sample_feature :: "bool \<Rightarrow> real \<times> real \<Rightarrow> py_error + pyval" where
  "sample_feature shadowed p =
     (let hours = (if shadowed then hours_shadow else hours_sun);
          shadow_percent = (if shadowed then 85 else 5)
      in case py_truediv hours hours_sun of
           Inl e \<Rightarrow> Inl e
         | Inr q \<Rightarrow>
             Inr (PDict
               [(''type'', PStr ''Feature''),
                (''geometry'', PDict [(''type'', PStr ''Point''),
                   (''coordinates'', PList [PFloat (Fin (fst p)), PFloat (Fin (snd p))])]),
                (''properties'', PDict
                   [(''hoursOfSun'', PFloat (Fin hours)),
                    (''shadowPercent'', PFloat (Fin shadow_percent)),
                    (''weight'', PFloat (Fin (max (1 / 10) (min q 1))))])]))"

definition analyse_samples ::
  "'g shapely \<Rightarrow> 'g list \<Rightarrow> bounds \<Rightarrow> int \<Rightarrow> py_error + samples" where
  "analyse_samples lib shadow_gdf b grid =
     (case sample_points b grid of
        Inl e \<Rightarrow> Inl e
      | Inr points \<Rightarrow>
          if points = [] then
            Inr \<lparr>features = [],
                 metrics = \<lparr>sampleCount = 0, avgShadowPercent = 0, avgSunlightHours = 0\<rparr>\<rparr>
          else
            (let union_geom = (if shadow_gdf \<noteq> [] then Some (unary_union lib shadow_gdf)
                               else None);
                 shadow_hits = length (filter (in_shadow lib union_geom) points)
             in case traverse (\<lambda>p. sample_feature (in_shadow lib union_geom p) p) points of
                  Inl e \<Rightarrow> Inl e
                | Inr feats \<Rightarrow>
                    (case py_truediv (real shadow_hits) (real (length points)) of
                       Inl e \<Rightarrow> Inl e
                     | Inr ratio \<Rightarrow>
                         (case py_truediv
                                 (real shadow_hits * hours_shadow
                                  + real (length points - shadow_hits) * hours_sun)
                                 (real (length points)) of
                            Inl e \<Rightarrow> Inl e
                          | Inr avg_sunlight \<Rightarrow>
                              Inr \<lparr>features = feats,
                                   metrics = \<lparr>sampleCount = int (length points),
                                              avgShadowPercent = ratio * 100,
                                              avgSunlightHours = avg_sunlight\<rparr>\<rparr>))))"

section \<open>Heatmap projector (\<^verbatim>\<open>service_cli.make_heatmap\<close>)\<close>

text \<open>\<^verbatim>\<open>d.get(key, default)\<close>: the default only when the key is absent.\<close>

fun py_get_default :: "pyval \<Rightarrow> string \<Rightarrow> pyval \<Rightarrow> py_error + pyval" where
  "py_get_default (PDict d) k dflt = Inr (case map_of d k of None \<Rightarrow> dflt | Some v \<Rightarrow> v)"
| "py_get_default _ k dflt = Inl AttributeError"

definition heatmap_item :: "pyval \<Rightarrow> py_error + pyval" where
  "heatmap_item feature =
     (case py_subscript feature ''geometry'' of
        Inl e \<Rightarrow> Inl e
      | Inr geom \<Rightarrow>
          (case py_subscript feature ''properties'' of
             Inl e \<Rightarrow> Inl e
           | Inr props \<Rightarrow>
               (case py_get_default props ''hoursOfSun'' (PInt 0) of
                  Inl e \<Rightarrow> Inl e
                | Inr h \<Rightarrow>
                    Inr (PDict [(''type'', PStr ''Feature''),
                                (''geometry'', geom),
                                (''properties'', PDict [(''intensity'', h)])]))))"

definition make_heatmap :: "pyval list \<Rightarrow> py_error + pyval" where
  "make_heatmap feats =
     (case traverse heatmap_item feats of
        Inl e \<Rightarrow> Inl e
      | Inr items \<Rightarrow>
          Inr (PDict [(''type'', PStr ''FeatureCollection''), (''features'', PList items)]))"

section \<open>Filter geometry (\<^verbatim>\<open>service_cli.normalize_geometry_obj\<close>)\<close>

text \<open>
  The loop of the \<^verbatim>\<open>FeatureCollection\<close> branch: a member without the \<^verbatim>\<open>get\<close> method
  raises, a member whose geometry is false (absent, \<^verbatim>\<open>None\<close>, empty) is skipped, and
  \<^verbatim>\<open>shape\<close> may raise on the others.
\<close>

fun collect_geometries :: "'g shapely \<Rightarrow> pyval list \<Rightarrow> py_error + 'g list" where
  "collect_geometries lib [] = Inr []"
| "collect_geometries lib (feature # rest) =
     (case py_get feature ''geometry'' of
        Inl e \<Rightarrow> Inl e
      | Inr geom \<Rightarrow>
          if py_truthy geom then
            (case shape lib geom of
               Inl e \<Rightarrow> Inl e
             | Inr g \<Rightarrow>
                 (case collect_geometries lib rest of
                    Inl e \<Rightarrow> Inl e
                  | Inr gs \<Rightarrow> Inr (g # gs)))
          else collect_geometries lib rest)"

definition normalize_geometry_obj :: "'g shapely \<Rightarrow> pyval \<Rightarrow> py_error + pyval" where
  "normalize_geometry_obj lib v =
     (case v of
        PNone \<Rightarrow> Inr PNone
      | PDict d \<Rightarrow>
          if dict_get d ''type'' = PStr ''Feature'' then Inr (dict_get d ''geometry'')
          else if dict_get d ''type'' = PStr ''FeatureCollection'' then
            (case py_iter (case map_of d ''features'' of None \<Rightarrow> PList [] | Some fs \<Rightarrow> fs) of
               Inl e \<Rightarrow> Inl e
             | Inr members \<Rightarrow>
                 (case collect_geometries lib members of
                    Inl e \<Rightarrow> Inl e
                  | Inr geometries \<Rightarrow>
                      if geometries = [] then Inr PNone
                      else Inr (mapping lib (unary_union lib geometries))))
          else if map_of d ''type'' \<noteq> None \<and> map_of d ''coordinates'' \<noteq> None then Inr v
          else Inl UnsupportedGeometryKind
      | _ \<Rightarrow> Inl UnsupportedGeometryKind)"

text \<open>
  The geometry field \<^verbatim>\<open>validate_payload\<close> puts into the \<^verbatim>\<open>AnalysisInput\<close> (its lines
  79 to 81), for a payload that passed the checks before them.
\<close>

definition validate_payload_geometry :: "'g shapely \<Rightarrow> pyval \<Rightarrow> py_error + pyval" where
  "validate_payload_geometry lib payload =
     (case py_get payload ''geometry'' of
        Inl e \<Rightarrow> Inl e
      | Inr g \<Rightarrow>
          if g \<noteq> PNone then
            (case py_subscript payload ''geometry'' of
               Inl e \<Rightarrow> Inl e
             | Inr g' \<Rightarrow> normalize_geometry_obj lib g')
          else Inr PNone)"

section \<open>Request orchestration (\<^verbatim>\<open>engine_core.run_analysis\<close>)\<close>

record analysis_input =
  bbox :: bounds
  timestamp :: string
  backend_url :: string
  timezone :: string
  max_features :: int
  geometry :: pyval

text \<open>A row of the buildings GeoDataFrame: its geometry and its attribute columns.\<close>

type_synonym 'g building = "'g \<times> (string \<times> pyval) list"

text \<open>
  What lies outside the repository: the HTTP call to the building backend (the post,
  \<^verbatim>\<open>raise_for_status\<close> and \<^verbatim>\<open>json\<close>), whether pybdshadow was importable, the shadow
  computation (from \<^verbatim>\<open>ZoneInfo\<close> to the \<^verbatim>\<open>sunlight_shadow\<close> call of
  \<^verbatim>\<open>generate_shadows\<close>, all of it library code), the GeoJSON export of a GeoDataFrame
  and the engine's version string.
\<close>

record 'g externals =
  http_post :: "string \<Rightarrow> pyval \<Rightarrow> py_error + pyval"
  engine_loaded :: bool
  sunlight_shadow :: "'g building list \<Rightarrow> string \<Rightarrow> string \<Rightarrow> py_error + 'g list"
  buildings_to_json :: "'g building list \<Rightarrow> pyval"
  shadows_to_json :: "'g list \<Rightarrow> pyval"
  pybdshadow_version :: string

text \<open>The external calls a request makes, in the order it makes them.\<close>

datatype call = BackendPost | ShadowEngine

definition rstrip_slash :: "string \<Rightarrow> string" where
  "rstrip_slash s = rev (dropWhile (\<lambda>c. c = CHR ''/'') (rev s))"

text \<open>
  \<^verbatim>\<open>fetch_buildings\<close>: one post to the backend, then the check of the answer. The
  message of its \<^verbatim>\<open>RuntimeError\<close> is kept without the backend's own text. It returns
  the external calls it made with its result.
\<close>

definition fetch_buildings ::
  "'g externals \<Rightarrow> bounds \<Rightarrow> string \<Rightarrow> int \<Rightarrow> call list \<times> (py_error + pyval)" where
  "fetch_buildings ext b url max_feat =
     ([BackendPost],
      case http_post ext (rstrip_slash url @ ''/api/buildings/bounds'')
             (PDict [(''west'', PFloat (Fin (west b))), (''south'', PFloat (Fin (south b))),
                     (''east'', PFloat (Fin (east b))), (''north'', PFloat (Fin (north b))),
                     (''maxFeatures'', PInt max_feat)]) of
        Inl e \<Rightarrow> Inl e
      | Inr data \<Rightarrow>
          (case py_get data ''success'' of
             Inl e \<Rightarrow> Inl e
           | Inr ok \<Rightarrow>
               if \<not> py_truthy ok then Inl (RuntimeError ''Backend returned error'')
               else py_subscript data ''data''))"

text \<open>
  The loop of \<^verbatim>\<open>features_to_gdf\<close>: a feature without geometry is dropped, the
  properties are copied, and the resolved height is added under \<^verbatim>\<open>height_m\<close> unless
  that key is there already. \<^verbatim>\<open>dict(props)\<close> copies a dict; on a true value that is
  not a dict it is taken to raise.
\<close>

fun features_rows :: "'g shapely \<Rightarrow> pyval list \<Rightarrow> py_error + 'g building list" where
  "features_rows lib [] = Inr []"
| "features_rows lib (feature # rest) =
     (case py_get feature ''geometry'' of
        Inl e \<Rightarrow> Inl e
      | Inr geom \<Rightarrow>
          if \<not> py_truthy geom then features_rows lib rest
          else
            (case shape lib geom of
               Inl e \<Rightarrow> Inl e
             | Inr shapely_geom \<Rightarrow>
                 (case py_get feature ''properties'' of
                    Inl e \<Rightarrow> Inl e
                  | Inr pv \<Rightarrow>
                      (case (if py_truthy pv then pv else PDict []) of
                         PDict props \<Rightarrow>
                           (let h = extract_height (map_of props);
                                props' = (if map_of props ''height_m'' = None
                                          then props @ [(''height_m'', PFloat h)] else props)
                            in case features_rows lib rest of
                                 Inl e \<Rightarrow> Inl e
                               | Inr rows \<Rightarrow> Inr ((shapely_geom, props') # rows))
                       | _ \<Rightarrow> Inl TypeError))))"

definition features_to_gdf :: "'g shapely \<Rightarrow> pyval \<Rightarrow> py_error + 'g building list" where
  "features_to_gdf lib fs =
     (case py_iter fs of Inl e \<Rightarrow> Inl e | Inr items \<Rightarrow> features_rows lib items)"

definition filter_buildings ::
  "'g shapely \<Rightarrow> 'g building list \<Rightarrow> pyval \<Rightarrow> py_error + 'g building list" where
  "filter_buildings lib buildings_gdf geom_obj =
     (if geom_obj = PNone then Inr buildings_gdf
      else
        (case shape lib geom_obj of
           Inl e \<Rightarrow> Inl e
         | Inr geom \<Rightarrow>
             if is_empty lib geom then Inr []
             else Inr (filter (\<lambda>row. intersects lib (fst row) geom) buildings_gdf)))"

text \<open>
  \<^verbatim>\<open>generate_shadows\<close>: the availability check of the repository, then the external
  computation. It returns the external calls it made with its result.
\<close>

definition generate_shadows ::
  "'g externals \<Rightarrow> 'g building list \<Rightarrow> string \<Rightarrow> string \<Rightarrow> call list \<times> (py_error + 'g list)" where
  "generate_shadows ext buildings_gdf ts tz =
     (if \<not> engine_loaded ext then
        ([], Inl (RuntimeError
           ''pybdshadow is not installed. Install dependencies listed in requirements.txt''))
      else ([ShadowEngine], sunlight_shadow ext buildings_gdf ts tz))"

record 'g analysis =
  buildings :: "'g building list"
  shadows :: "'g list"

text \<open>
  \<^verbatim>\<open>run_analysis\<close>, statement by statement: the fetch, the conversion, the filter when
  the geometry of the request is true, the test for an empty building set, and the
  shadow computation. The calls of the steps taken are appended in order.
\<close>

definition run_analysis ::
  "'g shapely \<Rightarrow> 'g externals \<Rightarrow> analysis_input \<Rightarrow> call list \<times> (py_error + 'g analysis)" where
  "run_analysis lib ext params =
     (case fetch_buildings ext (bbox params) (backend_url params) (max_features params) of
        (calls, Inl e) \<Rightarrow> (calls, Inl e)
      | (calls, Inr raw) \<Rightarrow>
          (case py_get_default raw ''features'' (PList []) of
             Inl e \<Rightarrow> (calls, Inl e)
           | Inr fs \<Rightarrow>
               (case features_to_gdf lib fs of
                  Inl e \<Rightarrow> (calls, Inl e)
                | Inr gdf0 \<Rightarrow>
                    (case (if py_truthy (geometry params)
                           then filter_buildings lib gdf0 (geometry params)
                           else Inr gdf0) of
                       Inl e \<Rightarrow> (calls, Inl e)
                     | Inr buildings_gdf \<Rightarrow>
                         if buildings_gdf = [] then (calls, Inl NoBuildingsError)
                         else
                           (case generate_shadows ext buildings_gdf
                                   (timestamp params) (timezone params) of
                              (calls', Inl e) \<Rightarrow> (calls @ calls', Inl e)
                            | (calls', Inr shadows_gdf) \<Rightarrow>
                                (calls @ calls',
                                 Inr \<lparr>buildings = buildings_gdf,
                                      shadows = shadows_gdf\<rparr>))))))"

text \<open>
  The building set of a request: what \<^verbatim>\<open>buildings_gdf\<close> holds when \<^verbatim>\<open>run_analysis\<close>
  tests it for emptiness, that is the fetch result, converted, and filtered when the
  geometry of the request is true (or the exception raised on the way).
\<close>

definition building_set ::
  "'g shapely \<Rightarrow> 'g externals \<Rightarrow> analysis_input \<Rightarrow> py_error + 'g building list" where
  "building_set lib ext params =
     (case snd (fetch_buildings ext (bbox params) (backend_url params) (max_features params)) of
        Inl e \<Rightarrow> Inl e
      | Inr raw \<Rightarrow>
          (case py_get_default raw ''features'' (PList []) of
             Inl e \<Rightarrow> Inl e
           | Inr fs \<Rightarrow>
               (case features_to_gdf lib fs of
                  Inl e \<Rightarrow> Inl e
                | Inr gdf0 \<Rightarrow>
                    if py_truthy (geometry params)
                    then filter_buildings lib gdf0 (geometry params)
                    else Inr gdf0)))"

section \<open>Response assembly (\<^verbatim>\<open>service_cli.main\<close>, \<^verbatim>\<open>engine_server._run_single\<close>)\<close>

definition gdf_to_feature_collection :: "('r list \<Rightarrow> pyval) \<Rightarrow> 'r list \<Rightarrow> pyval" where
  "gdf_to_feature_collection to_json gdf =
     (if gdf = [] then PDict [(''type'', PStr ''FeatureCollection''), (''features'', PList [])]
      else to_json gdf)"

text \<open>
  \<^verbatim>\<open>main\<close> from the call of \<^verbatim>\<open>run_analysis\<close> on. The validated parameters, the grid
  size read from the payload, the payload's \<^verbatim>\<open>profiling.engineLatencyMs\<close> (0 when
  absent) and the hexadecimal text of the fresh UUID are arguments. The result is the
  dict written to standard output, with the external calls made.
\<close>

definition main ::
  "'g shapely \<Rightarrow> 'g externals \<Rightarrow> analysis_input \<Rightarrow> int \<Rightarrow> pyval \<Rightarrow> string
     \<Rightarrow> call list \<times> (py_error + pyval)" where
  "main lib ext params grid latency uuid_hex =
     (case run_analysis lib ext params of
        (calls, Inl e) \<Rightarrow> (calls, Inl e)
      | (calls, Inr result) \<Rightarrow>
          (calls,
           case calculate_shadow_coverage lib (bbox params) (shadows result) of
             Inl e \<Rightarrow> Inl e
           | Inr coverage_stats \<Rightarrow>
               (case analyse_samples lib (shadows result) (bbox params) grid of
                  Inl e \<Rightarrow> Inl e
                | Inr samples0 \<Rightarrow>
                    (let samples1 = samples0\<lparr>metrics := (metrics samples0)
                           \<lparr>avgShadowPercent := coverage_percent coverage_stats\<rparr>\<rparr>;
                         sunlight_fc = PDict [(''type'', PStr ''FeatureCollection''),
                                              (''features'', PList (features samples1))]
                     in case make_heatmap (features samples1) of
                          Inl e \<Rightarrow> Inl e
                        | Inr heatmap_fc \<Rightarrow>
                            Inr (PDict
                              [(''requestId'', PStr (''pybdshadow-'' @ take 10 uuid_hex)),
                               (''data'', PDict
                                  [(''shadows'', gdf_to_feature_collection (shadows_to_json ext)
                                                   (shadows result)),
                                   (''sunlight'', sunlight_fc),
                                   (''heatmap'', heatmap_fc),
                                   (''buildings'', gdf_to_feature_collection
                                                     (buildings_to_json ext) (buildings result))]),
                               (''metrics'', PDict
                                  [(''sampleCount'', PInt (sampleCount (metrics samples1))),
                                   (''avgShadowPercent'',
                                      PFloat (Fin (coverage_percent coverage_stats))),
                                   (''avgSunlightHours'',
                                      PFloat (Fin (avgSunlightHours (metrics samples1)))),
                                   (''engineLatencyMs'', latency),
                                   (''engineVersion'', PStr (pybdshadow_version ext)),
                                   (''shadowAreaSqm'',
                                      PFloat (Fin (shadow_area_sqm coverage_stats))),
                                   (''bboxAreaSqm'',
                                      PFloat (Fin (bbox_area_sqm coverage_stats))),
                                   (''coverageSource'', PStr ''area'')]),
                               (''metadata'', PDict
                                  [(''timezone'', PStr (timezone params)),
                                   (''backendUrl'', PStr (backend_url params)),
                                   (''maxFeatures'', PInt (max_features params))])])))))"

text \<open>The request model of the server and the defaults it reads from the environment.\<close>

record shadow_request =
  req_bbox :: bounds
  req_timestamp :: string
  req_timezone :: "string option"
  req_backendUrl :: "string option"
  req_maxFeatures :: "int option"
  req_geometry :: pyval
  req_samples :: "(string \<times> int) list option"

record defaults =
  DEFAULT_BACKEND :: string
  DEFAULT_TZ :: string
  DEFAULT_MAX_FEATURES :: int
  DEFAULT_GRID :: int

text \<open>\<^verbatim>\<open>x or d\<close> for an optional string and for an optional int.\<close>

definition str_or :: "string option \<Rightarrow> string \<Rightarrow> string" where
  "str_or x d = (case x of None \<Rightarrow> d | Some s \<Rightarrow> if s = [] then d else s)"

definition int_or :: "int option \<Rightarrow> int \<Rightarrow> int" where
  "int_or x d = (case x of None \<Rightarrow> d | Some i \<Rightarrow> if i = 0 then d else i)"

definition run_single_params :: "defaults \<Rightarrow> shadow_request \<Rightarrow> analysis_input" where
  "run_single_params dflt payload =
     \<lparr>bbox = req_bbox payload,
      timestamp = req_timestamp payload,
      backend_url = rstrip_slash (str_or (req_backendUrl payload) (DEFAULT_BACKEND dflt)),
      timezone = str_or (req_timezone payload) (DEFAULT_TZ dflt),
      max_features = int_or (req_maxFeatures payload) (DEFAULT_MAX_FEATURES dflt),
      geometry = req_geometry payload\<rparr>"

definition run_single_grid :: "defaults \<Rightarrow> shadow_request \<Rightarrow> int" where
  "run_single_grid dflt payload =
     int_or (case req_samples payload of
               None \<Rightarrow> None
             | Some d \<Rightarrow> if d = [] then None else map_of d ''grid'')
            (DEFAULT_GRID dflt)"

definition run_single ::
  "'g shapely \<Rightarrow> 'g externals \<Rightarrow> defaults \<Rightarrow> shadow_request \<Rightarrow> string
     \<Rightarrow> call list \<times> (py_error + pyval)" where
  "run_single lib ext dflt payload uuid_hex =
     (let params = run_single_params dflt payload in
      case run_analysis lib ext params of
        (calls, Inl e) \<Rightarrow> (calls, Inl e)
      | (calls, Inr result) \<Rightarrow>
          (calls,
           let grid = run_single_grid dflt payload in
           case calculate_shadow_coverage lib (bbox params) (shadows result) of
             Inl e \<Rightarrow> Inl e
           | Inr coverage_stats \<Rightarrow>
               (case analyse_samples lib (shadows result) (bbox params) grid of
                  Inl e \<Rightarrow> Inl e
                | Inr samples0 \<Rightarrow>
                    (let samples1 = samples0\<lparr>metrics := (metrics samples0)
                           \<lparr>avgShadowPercent := coverage_percent coverage_stats\<rparr>\<rparr>;
                         sunlight_fc = PDict [(''type'', PStr ''FeatureCollection''),
                                              (''features'', PList (features samples1))]
                     in case make_heatmap (features samples1) of
                          Inl e \<Rightarrow> Inl e
                        | Inr heatmap_fc \<Rightarrow>
                            Inr (PDict
                              [(''requestId'', PStr (''pybdshadow-'' @ take 10 uuid_hex)),
                               (''data'', PDict
                                  [(''shadows'', gdf_to_feature_collection (shadows_to_json ext)
                                                   (shadows result)),
                                   (''sunlight'', sunlight_fc),
                                   (''heatmap'', heatmap_fc),
                                   (''buildings'', gdf_to_feature_collection
                                                     (buildings_to_json ext) (buildings result))]),
                               (''metrics'', PDict
                                  [(''sampleCount'', PInt (sampleCount (metrics samples1))),
                                   (''avgShadowPercent'',
                                      PFloat (Fin (coverage_percent coverage_stats))),
                                   (''avgSunlightHours'',
                                      PFloat (Fin (avgSunlightHours (metrics samples1)))),
                                   (''engineLatencyMs'', PInt 0),
                                   (''engineVersion'', PStr (pybdshadow_version ext)),
                                   (''shadowAreaSqm'',
                                      PFloat (Fin (shadow_area_sqm coverage_stats))),
                                   (''bboxAreaSqm'',
                                      PFloat (Fin (bbox_area_sqm coverage_stats))),
                                   (''coverageSource'', PStr ''area'')]),
                               (''metadata'', PDict
                                  [(''timezone'', PStr (timezone params)),
                                   (''backendUrl'', PStr (backend_url params)),
                                   (''maxFeatures'', PInt (max_features params))])])))))"

text \<open>A metric of an assembled response: \<^verbatim>\<open>response["metrics"].get(key)\<close>.\<close>

definition response_metric :: "pyval \<Rightarrow> string \<Rightarrow> pyval" where
  "response_metric response k =
     (case response of
        PDict d \<Rightarrow> (case dict_get d ''metrics'' of PDict m \<Rightarrow> dict_get m k | _ \<Rightarrow> PNone)
      | _ \<Rightarrow> PNone)"

section \<open>What the specification says of a sample\<close>

text \<open>
  The feature of a sample point, by its classification: 3.0 hours of sun and 85.0
  percent shadow for a shadowed point, 10.0 and 5.0 for a sunlit one, and the weight
  \<open>hoursOfSun / 10.0\<close> clamped into \<open>[0.1, 1.0]\<close>.
\<close>

definition expected_feature :: "bool \<Rightarrow> real \<times> real \<Rightarrow> pyval" where
  "expected_feature sh p = PDict
       [(''type'', PStr ''Feature''),
        (''geometry'', PDict [(''type'', PStr ''Point''),
           (''coordinates'', PList [PFloat (Fin (fst p)), PFloat (Fin (snd p))])]),
        (''properties'', PDict
           [(''hoursOfSun'', PFloat (Fin (if sh then 3 else 10))),
            (''shadowPercent'', PFloat (Fin (if sh then 85 else 5))),
            (''weight'', PFloat (Fin (max (1 / 10) (min ((if sh then 3 else 10) / 10) 1))))])]"

text \<open>
  A point is in shadow when the union of the (non-empty) shadow layer contains it;
  \<open>contains\<close> is shapely's predicate, which excludes the boundary.
\<close>

definition shadowed :: "'g shapely \<Rightarrow> 'g list \<Rightarrow> real \<times> real \<Rightarrow> bool" where
  "shadowed lib layer p = (layer \<noteq> [] \<and> contains lib (unary_union lib layer) p)"

text \<open>
  A property of a feature: \<^verbatim>\<open>feature["properties"].get(key)\<close>, \<^verbatim>\<open>None\<close> when the feature
  has no properties dict.
\<close>

definition feature_property :: "pyval \<Rightarrow> string \<Rightarrow> pyval" where
  "feature_property f k =
     (case f of
        PDict d \<Rightarrow> (case dict_get d ''properties'' of PDict m \<Rightarrow> dict_get m k | _ \<Rightarrow> PNone)
      | _ \<Rightarrow> PNone)"

text \<open>
  A sample-point feature is a dict with a geometry and a properties dict; \<open>heat_of\<close> is
  the heatmap feature the specification gives it: the same geometry, and a properties
  dict with the single key \<^verbatim>\<open>intensity\<close>, holding \<^verbatim>\<open>hoursOfSun\<close> or 0 when it is missing.
\<close>

definition heat_feature :: "pyval \<Rightarrow> (string \<times> pyval) list \<Rightarrow> pyval" where
  "heat_feature geom m =
     PDict [(''type'', PStr ''Feature''),
            (''geometry'', geom),
            (''properties'',
               PDict [(''intensity'', case map_of m ''hoursOfSun'' of None \<Rightarrow> PInt 0 | Some h \<Rightarrow> h)])]"

definition well_formed_feature :: "pyval \<Rightarrow> bool" where
  "well_formed_feature f =
     (case f of
        PDict d \<Rightarrow> (case (map_of d ''geometry'', map_of d ''properties'') of
                      (Some geom, Some (PDict m)) \<Rightarrow> True
                    | _ \<Rightarrow> False)
      | _ \<Rightarrow> False)"

definition heat_of :: "pyval \<Rightarrow> pyval" where
  "heat_of f =
     (case f of
        PDict d \<Rightarrow> (case (map_of d ''geometry'', map_of d ''properties'') of
                      (Some geom, Some (PDict m)) \<Rightarrow> heat_feature geom m
                    | _ \<Rightarrow> PNone)
      | _ \<Rightarrow> PNone)"

section \<open>A small executable geometry\<close>

text \<open>
  To run the definitions on concrete input, the library is instantiated with finite
  unions of axis-parallel closed rectangles \<open>(minx, miny, maxx, maxy)\<close>, measured in the
  coordinate plane (the projection is the identity). As in shapely, the rectangle that
  \<open>box\<close> builds from its four numbers has the unsigned area of the polygon through the
  four corners, whatever the order of \<open>minx\<close> and \<open>maxx\<close>: its area is never negative.
\<close>

type_synonym rect = "real \<times> real \<times> real \<times> real"

definition rect_inter :: "rect \<Rightarrow> rect \<Rightarrow> rect option" where
  "rect_inter r s =
     (case (r, s) of
        ((x0, y0, x1, y1), (a0, b0, a1, b1)) \<Rightarrow>
          if max x0 a0 \<le> min x1 a1 \<and> max y0 b0 \<le> min y1 b1
          then Some (max x0 a0, max y0 b0, min x1 a1, min y1 b1) else None)"

definition rect_area :: "rect \<Rightarrow> real" where
  "rect_area r = (case r of (x0, y0, x1, y1) \<Rightarrow> (x1 - x0) * (y1 - y0))"

lemma length_map_filter_le: "length (List.map_filter f xs) \<le> length xs"
  by (simp add: List.map_filter_def)

text \<open>The area of a union, by inclusion and exclusion on the first rectangle.\<close>

function rects_area :: "rect list \<Rightarrow> real" where
  "rects_area [] = 0"
| "rects_area (r # rs) =
     rect_area r + rects_area rs - rects_area (List.map_filter (rect_inter r) rs)"
  by pat_completeness auto
termination
  by (relation "measure length") (auto simp: less_Suc_eq_le length_map_filter_le)

definition planar_box :: "real \<Rightarrow> real \<Rightarrow> real \<Rightarrow> real \<Rightarrow> rect list" where
  "planar_box minx miny maxx maxy =
     [(min minx maxx, min miny maxy, max minx maxx, max miny maxy)]"

definition planar_intersection :: "rect list \<Rightarrow> rect list \<Rightarrow> rect list" where
  "planar_intersection g h = concat (map (\<lambda>r. List.map_filter (rect_inter r) h) g)"

text \<open>A point is contained when it lies strictly inside one of the rectangles.\<close>

definition planar_contains :: "rect list \<Rightarrow> real \<times> real \<Rightarrow> bool" where
  "planar_contains g p =
     list_ex (\<lambda>r. case r of (x0, y0, x1, y1) \<Rightarrow>
                x0 < fst p \<and> fst p < x1 \<and> y0 < snd p \<and> snd p < y1) g"

fun number_of :: "pyval \<Rightarrow> real option" where
  "number_of (PInt i) = Some (real_of_int i)"
| "number_of (PFloat (Fin x)) = Some x"
| "number_of _ = None"

fun position_of :: "pyval \<Rightarrow> (real \<times> real) option" where
  "position_of (PList [x, y]) =
     (case (number_of x, number_of y) of (Some a, Some b) \<Rightarrow> Some (a, b) | _ \<Rightarrow> None)"
| "position_of _ = None"

text \<open>
  \<open>shape\<close> reads a \<^verbatim>\<open>Polygon\<close> with one ring as the rectangle spanned by the ring's
  positions, and refuses everything else.
\<close>

definition planar_shape :: "pyval \<Rightarrow> py_error + rect list" where
  "planar_shape v =
     (case v of
        PDict d \<Rightarrow>
          (case (dict_get d ''type'', dict_get d ''coordinates'') of
             (PStr t, PList [PList ring]) \<Rightarrow>
               (case those (map position_of ring) of
                  Some (p # ps) \<Rightarrow>
                    if t = ''Polygon'' then
                      Inr [(fold min (map fst ps) (fst p), fold min (map snd ps) (snd p),
                            fold max (map fst ps) (fst p), fold max (map snd ps) (snd p))]
                    else Inl (LibraryError ''shape'')
                | _ \<Rightarrow> Inl (LibraryError ''shape''))
           | _ \<Rightarrow> Inl (LibraryError ''shape''))
      | _ \<Rightarrow> Inl (LibraryError ''shape''))"

definition ring_of :: "rect \<Rightarrow> pyval" where
  "ring_of r =
     (case r of (x0, y0, x1, y1) \<Rightarrow>
        PList [PList [PList [PFloat (Fin x0), PFloat (Fin y0)],
                      PList [PFloat (Fin x1), PFloat (Fin y0)],
                      PList [PFloat (Fin x1), PFloat (Fin y1)],
                      PList [PFloat (Fin x0), PFloat (Fin y1)],
                      PList [PFloat (Fin x0), PFloat (Fin y0)]]])"

definition planar_mapping :: "rect list \<Rightarrow> pyval" where
  "planar_mapping g =
     (case g of
        [r] \<Rightarrow> PDict [(''type'', PStr ''Polygon''), (''coordinates'', ring_of r)]
      | _ \<Rightarrow> PDict [(''type'', PStr ''MultiPolygon''), (''coordinates'', PList (map ring_of g))])"

definition planar :: "rect list shapely" where
  "planar =
     \<lparr>shape = planar_shape,
      mapping = planar_mapping,
      box = planar_box,
      unary_union = concat,
      intersection = planar_intersection,
      intersects = (\<lambda>g h. planar_intersection g h \<noteq> []),
      is_empty = (\<lambda>g. g = []),
      contains = planar_contains,
      area_3857 = rects_area\<rparr>"

text \<open>
  A backend that answers every request with the given features, and an engine that
  casts, for every building, the given shadow.
\<close>

definition demo_ext :: "pyval list \<Rightarrow> rect list list \<Rightarrow> rect list externals" where
  "demo_ext feats layer =
     \<lparr>http_post = (\<lambda>url payload.
          Inr (PDict [(''success'', PBool True),
                      (''data'', PDict [(''type'', PStr ''FeatureCollection''),
                                        (''features'', PList feats)])])),
      engine_loaded = True,
      sunlight_shadow = (\<lambda>rows ts tz. Inr layer),
      buildings_to_json = (\<lambda>rows. PDict [(''type'', PStr ''FeatureCollection''),
                                            (''features'', PList (map (\<lambda>row. PDict (snd row)) rows))]),
      shadows_to_json = (\<lambda>layer. PDict [(''type'', PStr ''FeatureCollection''),
                                          (''features'', PList (map planar_mapping layer))]),
      pybdshadow_version = ''unknown''\<rparr>"

definition square_feature :: pyval where
  "square_feature =
     PDict [(''type'', PStr ''Feature''),
            (''geometry'', PDict [(''type'', PStr ''Polygon''),
                                  (''coordinates'', ring_of (0, 0, 1, 1))]),
            (''properties'', PDict [(''levels'', PInt 4)])]"

text \<open>A request over the box \<open>[0, 2] \<times> [0, 2]\<close>, for the CLI and for the server.\<close>

definition demo_params :: analysis_input where
  "demo_params =
     \<lparr>bbox = \<lparr>west = 0, south = 0, east = 2, north = 2\<rparr>,
      timestamp = ''2025-01-01T03:00:00'',
      backend_url = ''http://localhost:3500'',
      timezone = ''Asia/Hong_Kong'',
      max_features = 8000,
      geometry = PNone\<rparr>"

definition demo_request :: shadow_request where
  "demo_request =
     \<lparr>req_bbox = \<lparr>west = 0, south = 0, east = 2, north = 2\<rparr>,
      req_timestamp = ''2025-01-01T03:00:00'',
      req_timezone = None,
      req_backendUrl = None,
      req_maxFeatures = None,
      req_geometry = PNone,
      req_samples = Some [(''grid'', 3)]\<rparr>"

definition demo_defaults :: defaults where
  "demo_defaults =
     \<lparr>DEFAULT_BACKEND = ''http://localhost:3500'',
      DEFAULT_TZ = ''Asia/Hong_Kong'',
      DEFAULT_MAX_FEATURES = 8000,
      DEFAULT_GRID = 6\<rparr>"

text \<open>Two filter geometries: one away from the unit square, one on it.\<close>

definition far_polygon :: pyval where
  "far_polygon = PDict [(''type'', PStr ''Polygon''), (''coordinates'', ring_of (5, 5, 6, 6))]"

definition near_polygon :: pyval where
  "near_polygon = PDict [(''type'', PStr ''Polygon''), (''coordinates'', ring_of (0, 0, 1, 1))]"

section \<open>Height resolution: the priority order\<close>




section \<open>Coverage: no division by zero, clamped percentage\<close>


lemmas planar_simps = planar_def planar_box_def planar_intersection_def rect_inter_def
  rect_area_def List.map_filter_def planar_contains_def


section \<open>Grid sampler: the interior grid and the classification\<close>





lemma sample_feature_total:
  "sample_feature sh p =
     Inr (PDict
       [(''type'', PStr ''Feature''),
        (''geometry'', PDict [(''type'', PStr ''Point''),
           (''coordinates'', PList [PFloat (Fin (fst p)), PFloat (Fin (snd p))])]),
        (''properties'', PDict
           [(''hoursOfSun'', PFloat (Fin (if sh then 3 else 10))),
            (''shadowPercent'', PFloat (Fin (if sh then 85 else 5))),
            (''weight'', PFloat (Fin (max (1 / 10) (min ((if sh then 3 else 10) / 10) 1))))])])"
  by (simp add: sample_feature_def hours_shadow_def hours_sun_def py_truediv_def Let_def)

lemma traverse_sample_feature:
  "traverse (\<lambda>p. sample_feature (c p) p) ps = Inr (map (\<lambda>p. expected_feature (c p) p) ps)"
  by (induction ps) (simp_all add: sample_feature_total expected_feature_def)

lemma analyse_samples_value:
  assumes "sample_points b g = Inr ps"
  shows "analyse_samples lib layer b g =
     Inr (if ps = [] then
            \<lparr>features = [],
             metrics = \<lparr>sampleCount = 0, avgShadowPercent = 0, avgSunlightHours = 0\<rparr>\<rparr>
          else
            (let u = (if layer \<noteq> [] then Some (unary_union lib layer) else None);
                 hits = length (filter (in_shadow lib u) ps)
             in \<lparr>features = map (\<lambda>p. expected_feature (in_shadow lib u p) p) ps,
                 metrics = \<lparr>sampleCount = int (length ps),
                            avgShadowPercent = real hits / real (length ps) * 100,
                            avgSunlightHours =
                              (real hits * 3 + real (length ps - hits) * 10) / real (length ps)\<rparr>\<rparr>))"
proof (cases "ps = []")
  case True
  then show ?thesis using assms by (simp add: analyse_samples_def)
next
  case False
  then have len: "real (length ps) \<noteq> 0" by simp
  show ?thesis
    using assms False len
    unfolding analyse_samples_def Let_def
    by (simp add: traverse_sample_feature py_truediv_def hours_shadow_def hours_sun_def)
qed



text \<open>
  Claim C5. \<open>analyse_samples\<close> returns, for the points \<open>ps\<close> of the grid and in their
  order, the feature of each point by its classification: a point is shadowed when the
  layer is not empty, its union (taken once) is not empty and contains the point. With
  an empty layer every point is sunlit; and for a library in which an empty geometry
  contains no point, a point is shadowed exactly when the union of the layer contains
  it. A shadowed point carries 3.0 hours and 85.0 percent, a sunlit one 10.0 and 5.0,
  and the weight is the clamped ratio (\<open>expected_feature\<close>).
\<close>

theorem analyse_samples_classification:
  assumes "sample_points b g = Inr ps"
  shows "\<exists>r. analyse_samples lib layer b g = Inr r
     \<and> features r = map (\<lambda>p. expected_feature
           (layer \<noteq> [] \<and> \<not> is_empty lib (unary_union lib layer)
            \<and> contains lib (unary_union lib layer) p) p) ps
     \<and> (layer = [] \<longrightarrow> features r = map (expected_feature False) ps)
     \<and> ((\<forall>u q. is_empty lib u \<longrightarrow> \<not> contains lib u q) \<longrightarrow>
          features r = map (\<lambda>p. expected_feature (shadowed lib layer p) p) ps)"
proof -
  have cls: "in_shadow lib (if layer \<noteq> [] then Some (unary_union lib layer) else None) p
      = (layer \<noteq> [] \<and> \<not> is_empty lib (unary_union lib layer)
            \<and> contains lib (unary_union lib layer) p)" for p
    by (simp add: in_shadow_def)
  have law: "(layer \<noteq> [] \<and> \<not> is_empty lib (unary_union lib layer)
            \<and> contains lib (unary_union lib layer) p) = shadowed lib layer p"
    if "\<forall>u q. is_empty lib u \<longrightarrow> \<not> contains lib u q" for p
    using that unfolding shadowed_def by blast
  obtain r where r: "analyse_samples lib layer b g = Inr r"
    and f: "features r = map (\<lambda>p. expected_feature
           (layer \<noteq> [] \<and> \<not> is_empty lib (unary_union lib layer)
            \<and> contains lib (unary_union lib layer) p) p) ps"
    using analyse_samples_value [OF assms, of lib layer]
    by (cases "ps = []") (simp_all add: Let_def cls)
  have empty: "features r = map (expected_feature False) ps" if "layer = []"
    using f that by simp
  have lawful: "features r = map (\<lambda>p. expected_feature (shadowed lib layer p) p) ps"
    if "\<forall>u q. is_empty lib u \<longrightarrow> \<not> contains lib u q"
    using f law [OF that] by simp
  from r f empty lawful show ?thesis by blast
qed

theorem analyse_samples_classification_witness:
  "sample_points \<lparr>west = 0, south = 0, east = 4, north = 8\<rparr> 3 =
       Inr [(1, 2), (1, 4), (1, 6), (2, 2), (2, 4), (2, 6), (3, 2), (3, 4), (3, 6)]
   \<and> (\<forall>u q. \<not> (is_empty planar u \<and> contains planar u q))
   \<and> (\<exists>r. analyse_samples planar [[(0, 0, 2, 8)]] \<lparr>west = 0, south = 0, east = 4, north = 8\<rparr> 3 = Inr r
        \<and> features r = map (\<lambda>p. expected_feature (fst p < 2) p)
            [(1, 2), (1, 4), (1, 6), (2, 2), (2, 4), (2, 6), (3, 2), (3, 4), (3, 6)])"
proof -
  have sp: "sample_points \<lparr>west = 0, south = 0, east = 4, north = 8\<rparr> 3 =
       Inr [(1, 2), (1, 4), (1, 6), (2, 2), (2, 4), (2, 6), (3, 2), (3, 4), (3, 6)]"
    by (simp add: sample_points_def py_truediv_def upto_rec1)
  have law: "\<forall>u q. \<not> (is_empty planar u \<and> contains planar u q)"
    by (simp add: planar_def planar_contains_def)
  show ?thesis
    using analyse_samples_classification [OF sp, of planar "[[(0, 0, 2, 8)]]"] sp law
    by (simp add: shadowed_def planar_def planar_contains_def)
qed

section \<open>Heatmap projector: one feature per sample\<close>

lemma heatmap_item_well_formed:
  assumes "well_formed_feature f"
  shows "heatmap_item f = Inr (heat_of f)"
  using assms
  by (auto simp: well_formed_feature_def heatmap_item_def heat_of_def heat_feature_def
      split: pyval.splits option.splits)

lemma traverse_heatmap_item:
  assumes "list_all well_formed_feature fs"
  shows "traverse heatmap_item fs = Inr (map heat_of fs)"
  using assms by (induction fs) (simp_all add: heatmap_item_well_formed)

lemma sample_points_total: "\<exists>ps. sample_points b g = Inr ps"
proof -
  have "(0::int) < max 3 (min g 25) + 1" by simp
  then have nz: "real_of_int (max 3 (min g 25) + 1) \<noteq> 0"
    by (metis of_int_0_less_iff less_irrefl)
  show ?thesis using nz unfolding sample_points_def Let_def py_truediv_def by simp
qed

lemma expected_feature_well_formed: "well_formed_feature (expected_feature sh p)"
  by (simp add: well_formed_feature_def expected_feature_def)

lemma analyse_samples_features:
  assumes "sample_points b g = Inr ps"
  shows "\<exists>r. analyse_samples lib layer b g = Inr r
     \<and> features r = map (\<lambda>p. expected_feature
           (layer \<noteq> [] \<and> \<not> is_empty lib (unary_union lib layer)
            \<and> contains lib (unary_union lib layer) p) p) ps"
proof -
  have cls: "in_shadow lib (if layer \<noteq> [] then Some (unary_union lib layer) else None) p
      = (layer \<noteq> [] \<and> \<not> is_empty lib (unary_union lib layer)
            \<and> contains lib (unary_union lib layer) p)" for p
    by (simp add: in_shadow_def)
  show ?thesis
    using analyse_samples_value [OF assms, of lib layer]
    by (cases "ps = []") (simp_all add: Let_def cls)
qed

text \<open>
  Claim C7. On a list of sample-point features \<open>make_heatmap\<close> returns a
  \<^verbatim>\<open>FeatureCollection\<close> whose features are \<open>heat_of\<close> of the input features, one for one
  and in the same order: the feature at position \<open>k\<close> has the geometry of the input at
  position \<open>k\<close> and the single property \<^verbatim>\<open>intensity\<close>, equal to that input's
  \<^verbatim>\<open>hoursOfSun\<close>, or 0 when it has none. And on the features \<open>analyse_samples\<close>
  returns it yields as many features, each with the intensity \<^verbatim>\<open>hoursOfSun\<close> of its
  source.
\<close>

theorem make_heatmap_pointwise:
  "(list_all well_formed_feature fs \<longrightarrow>
      make_heatmap fs =
        Inr (PDict [(''type'', PStr ''FeatureCollection''), (''features'', PList (map heat_of fs))])
      \<and> length (map heat_of fs) = length fs
      \<and> (\<forall>k < length fs. map heat_of fs ! k = heat_of (fs ! k)))
   \<and> (map_of d ''geometry'' = Some geom \<and> map_of d ''properties'' = Some (PDict m) \<longrightarrow>
        heat_of (PDict d) =
          PDict [(''type'', PStr ''Feature''),
                 (''geometry'', geom),
                 (''properties'',
                    PDict [(''intensity'',
                            case map_of m ''hoursOfSun'' of None \<Rightarrow> PInt 0 | Some h \<Rightarrow> h)])])
   \<and> (\<exists>r items. analyse_samples lib layer b g = Inr r
         \<and> make_heatmap (features r) =
             Inr (PDict [(''type'', PStr ''FeatureCollection''), (''features'', PList items)])
         \<and> length items = length (features r)
         \<and> (\<forall>k < length items.
               feature_property (items ! k) ''intensity''
                 = feature_property (features r ! k) ''hoursOfSun''))"
proof -
  have a: "make_heatmap fs =
        Inr (PDict [(''type'', PStr ''FeatureCollection''), (''features'', PList (map heat_of fs))])
      \<and> length (map heat_of fs) = length fs
      \<and> (\<forall>k < length fs. map heat_of fs ! k = heat_of (fs ! k))"
    if "list_all well_formed_feature fs" for fs
    using that by (simp add: make_heatmap_def traverse_heatmap_item)
  have b: "heat_of (PDict d) =
          PDict [(''type'', PStr ''Feature''),
                 (''geometry'', geom),
                 (''properties'',
                    PDict [(''intensity'',
                            case map_of m ''hoursOfSun'' of None \<Rightarrow> PInt 0 | Some h \<Rightarrow> h)])]"
    if "map_of d ''geometry'' = Some geom" "map_of d ''properties'' = Some (PDict m)"
    using that by (simp add: heat_of_def heat_feature_def)
  obtain ps where ps: "sample_points b g = Inr ps" using sample_points_total by blast
  obtain r where r: "analyse_samples lib layer b g = Inr r"
    and f: "features r = map (\<lambda>p. expected_feature
           (layer \<noteq> [] \<and> \<not> is_empty lib (unary_union lib layer)
            \<and> contains lib (unary_union lib layer) p) p) ps"
    using analyse_samples_features [OF ps, of lib layer] by blast
  have wf: "list_all well_formed_feature (features r)"
    by (simp add: f list_all_iff expected_feature_well_formed)
  have same: "feature_property (heat_of (expected_feature sh p)) ''intensity''
      = feature_property (expected_feature sh p) ''hoursOfSun''" for sh p
    by (simp add: heat_of_def heat_feature_def expected_feature_def feature_property_def
        dict_get_def)
  have c: "\<forall>k < length (map heat_of (features r)).
      feature_property (map heat_of (features r) ! k) ''intensity''
        = feature_property (features r ! k) ''hoursOfSun''"
    by (simp add: f same)
  from a [OF wf] r c have
    "\<exists>r items. analyse_samples lib layer b g = Inr r
         \<and> make_heatmap (features r) =
             Inr (PDict [(''type'', PStr ''FeatureCollection''), (''features'', PList items)])
         \<and> length items = length (features r)
         \<and> (\<forall>k < length items.
               feature_property (items ! k) ''intensity''
                 = feature_property (features r ! k) ''hoursOfSun'')"
    by (intro exI [of _ r] exI [of _ "map heat_of (features r)"]) simp
  with a b show ?thesis by blast
qed


theorem make_heatmap_pointwise_witness:
  "list_all well_formed_feature
     [PDict [(''type'', PStr ''Feature''), (''geometry'', PStr ''here''),
             (''properties'', PDict [(''hoursOfSun'', PFloat (Fin 3))])],
      PDict [(''geometry'', PStr ''there''), (''properties'', PDict [])]]
   \<and> make_heatmap
     [PDict [(''type'', PStr ''Feature''), (''geometry'', PStr ''here''),
             (''properties'', PDict [(''hoursOfSun'', PFloat (Fin 3))])],
      PDict [(''geometry'', PStr ''there''), (''properties'', PDict [])]]
     = Inr (PDict [(''type'', PStr ''FeatureCollection''),
         (''features'', PList
            [PDict [(''type'', PStr ''Feature''), (''geometry'', PStr ''here''),
                    (''properties'', PDict [(''intensity'', PFloat (Fin 3))])],
             PDict [(''type'', PStr ''Feature''), (''geometry'', PStr ''there''),
                    (''properties'', PDict [(''intensity'', PInt 0)])]])])"
proof -
  let ?fs = "[PDict [(''type'', PStr ''Feature''), (''geometry'', PStr ''here''),
             (''properties'', PDict [(''hoursOfSun'', PFloat (Fin 3))])],
      PDict [(''geometry'', PStr ''there''), (''properties'', PDict [])]]"
  have wf: "list_all well_formed_feature ?fs"
    by (simp add: well_formed_feature_def)
  from wf make_heatmap_pointwise [where fs = ?fs and d = "[]" and geom = PNone and m = "[]"
      and lib = planar and layer = "[]" and b = "\<lparr>west = 0, south = 0, east = 1, north = 1\<rparr>"
      and g = 3]
  have "make_heatmap ?fs =
    Inr (PDict [(''type'', PStr ''FeatureCollection''), (''features'', PList (map heat_of ?fs))])"
    by blast
  then show ?thesis
    using wf by (simp add: heat_of_def heat_feature_def)
qed

section \<open>Degenerate and inverted bounding boxes\<close>

text \<open>
  With \<open>east \<le> west\<close> or \<open>north \<le> south\<close> the sampler returns no point and the
  sample metrics are zero. The coverage estimator does not look at the coordinates: it
  returns zeros when the projected area of the polygon \<open>box\<close> builds is not positive.
\<close>

lemma degenerate_bbox_sampling:
  assumes "east b \<le> west b \<or> north b \<le> south b"
  shows "sample_points b g = Inr []"
    and "analyse_samples lib layer b g =
      Inr \<lparr>features = [],
           metrics = \<lparr>sampleCount = 0, avgShadowPercent = 0, avgSunlightHours = 0\<rparr>\<rparr>"
    and "area_3857 lib (box lib (west b) (south b) (east b) (north b)) \<le> 0 \<Longrightarrow>
           calculate_shadow_coverage lib b layer =
             Inr \<lparr>bbox_area_sqm = 0, shadow_area_sqm = 0, coverage_percent = 0\<rparr>"
proof -
  show sp: "sample_points b g = Inr []"
    using assms by (auto simp: sample_points_def Let_def)
  show "analyse_samples lib layer b g =
      Inr \<lparr>features = [],
           metrics = \<lparr>sampleCount = 0, avgShadowPercent = 0, avgSunlightHours = 0\<rparr>\<rparr>"
    by (simp add: analyse_samples_def sp)
  show "calculate_shadow_coverage lib b layer =
             Inr \<lparr>bbox_area_sqm = 0, shadow_area_sqm = 0, coverage_percent = 0\<rparr>"
    if "area_3857 lib (box lib (west b) (south b) (east b) (north b)) \<le> 0"
    using that by (simp add: calculate_shadow_coverage_def Let_def max_def)
qed

text \<open>
  Claim C1. The claim asks that, for \<open>east \<le> west\<close> or \<open>north \<le> south\<close>, the
  coverage estimator returns three zeros and the sampler no point. The sampler does.
  The estimator does not for an inverted box, \<open>east < west\<close>: shapely's \<open>box\<close> still
  builds the rectangle through the four corners, its area is positive, and the guard
  on a non-positive area does not fire. On the box with \<open>west = 1\<close>, \<open>east = 0\<close> and the
  unit square as the only shadow, the estimator reports the area 1 and 100 percent
  coverage, while the sampler reports no sample.
\<close>

theorem inverted_bbox_positive_coverage:
  "calculate_shadow_coverage planar \<lparr>west = 1, south = 0, east = 0, north = 1\<rparr> [[(0, 0, 1, 1)]]
     = Inr \<lparr>bbox_area_sqm = 1, shadow_area_sqm = 1, coverage_percent = 100\<rparr>
   \<and> sample_points \<lparr>west = 1, south = 0, east = 0, north = 1\<rparr> 6 = Inr []
   \<and> analyse_samples planar [[(0, 0, 1, 1)]] \<lparr>west = 1, south = 0, east = 0, north = 1\<rparr> 6
     = Inr \<lparr>features = [],
            metrics = \<lparr>sampleCount = 0, avgShadowPercent = 0, avgSunlightHours = 0\<rparr>\<rparr>"
  by (simp add: calculate_shadow_coverage_def py_truediv_def planar_simps Let_def
      sample_points_def analyse_samples_def)

section \<open>The reported shadow percentage\<close>

lemma main_metrics:
  assumes "main lib ext params grid latency uuid_hex = (calls, Inr resp)"
  shows "\<exists>result cov. run_analysis lib ext params = (calls, Inr result)
     \<and> calculate_shadow_coverage lib (bbox params) (shadows result) = Inr cov
     \<and> response_metric resp ''avgShadowPercent'' = PFloat (Fin (coverage_percent cov))
     \<and> response_metric resp ''coverageSource'' = PStr ''area''"
  using assms unfolding main_def Let_def
  by (auto simp: response_metric_def dict_get_def split: prod.splits sum.splits)

lemma run_single_metrics:
  assumes "run_single lib ext dflt payload uuid_hex = (calls, Inr resp)"
  shows "\<exists>result cov. run_analysis lib ext (run_single_params dflt payload) = (calls, Inr result)
     \<and> calculate_shadow_coverage lib (req_bbox payload) (shadows result) = Inr cov
     \<and> response_metric resp ''avgShadowPercent'' = PFloat (Fin (coverage_percent cov))
     \<and> response_metric resp ''coverageSource'' = PStr ''area''"
  using assms unfolding run_single_def Let_def
  by (auto simp: response_metric_def dict_get_def run_single_params_def
      split: prod.splits sum.splits)

text \<open>
  Claim C6. In every response \<open>main\<close> and \<open>run_single\<close> assemble, the metric
  \<^verbatim>\<open>avgShadowPercent\<close> is the \<open>coverage_percent\<close> that \<open>calculate_shadow_coverage\<close>
  returned for the request's box and shadow layer, not the percentage of the grid
  samples, and the metric \<^verbatim>\<open>coverageSource\<close> is the string \<^verbatim>\<open>area\<close>.
\<close>

theorem response_reports_area_coverage:
  "(main lib ext params grid latency uuid_hex = (calls, Inr resp) \<longrightarrow>
      (\<exists>result cov. run_analysis lib ext params = (calls, Inr result)
         \<and> calculate_shadow_coverage lib (bbox params) (shadows result) = Inr cov
         \<and> response_metric resp ''avgShadowPercent'' = PFloat (Fin (coverage_percent cov))
         \<and> response_metric resp ''coverageSource'' = PStr ''area''))
   \<and> (run_single lib ext dflt payload uuid_hex = (calls', Inr resp') \<longrightarrow>
      (\<exists>result cov. run_analysis lib ext (run_single_params dflt payload) = (calls', Inr result)
         \<and> calculate_shadow_coverage lib (req_bbox payload) (shadows result) = Inr cov
         \<and> response_metric resp' ''avgShadowPercent'' = PFloat (Fin (coverage_percent cov))
         \<and> response_metric resp' ''coverageSource'' = PStr ''area''))"
  using main_metrics run_single_metrics by blast

lemmas orchestration_simps = run_analysis_def building_set_def fetch_buildings_def
  features_to_gdf_def filter_buildings_def generate_shadows_def demo_ext_def
  square_feature_def planar_shape_def ring_of_def dict_get_def rstrip_slash_def
  extract_height_def height_keys_def

lemma demo_run_analysis:
  "run_analysis planar (demo_ext [square_feature] [[(0, 0, 1, 2)]]) demo_params =
     ([BackendPost, ShadowEngine],
      Inr \<lparr>buildings = [([(0, 0, 1, 1)],
                          [(''levels'', PInt 4), (''height_m'', PFloat (Fin 14))])],
           shadows = [[(0, 0, 1, 2)]]\<rparr>)"
  by (simp add: orchestration_simps demo_params_def planar_def)

lemma demo_coverage:
  "calculate_shadow_coverage planar \<lparr>west = 0, south = 0, east = 2, north = 2\<rparr> [[(0, 0, 1, 2)]]
     = Inr \<lparr>bbox_area_sqm = 4, shadow_area_sqm = 2, coverage_percent = 50\<rparr>"
  by (simp add: calculate_shadow_coverage_def py_truediv_def planar_simps Let_def)

lemma demo_samples:
  "\<exists>fs. analyse_samples planar [[(0, 0, 1, 2)]] \<lparr>west = 0, south = 0, east = 2, north = 2\<rparr> 3
     = Inr \<lparr>features = fs,
            metrics = \<lparr>sampleCount = 9, avgShadowPercent = 100 / 3,
                       avgSunlightHours = 23 / 3\<rparr>\<rparr>
       \<and> list_all well_formed_feature fs"
proof -
  have sp: "sample_points \<lparr>west = 0, south = 0, east = 2, north = 2\<rparr> 3 =
       Inr [(1/2, 1/2), (1/2, 1), (1/2, 3/2), (1, 1/2), (1, 1), (1, 3/2),
            (3/2, 1/2), (3/2, 1), (3/2, 3/2)]"
    by (simp add: sample_points_def py_truediv_def upto_rec1)
  show ?thesis
    using analyse_samples_value [OF sp, of planar "[[(0, 0, 1, 2)]]"]
    by (simp add: Let_def in_shadow_def planar_def planar_contains_def
        expected_feature_well_formed)
qed

theorem response_reports_area_coverage_witness:
  "(\<exists>resp. main planar (demo_ext [square_feature] [[(0, 0, 1, 2)]]) demo_params 3 (PInt 0)
              ''0123456789abcdef'' = ([BackendPost, ShadowEngine], Inr resp)
       \<and> response_metric resp ''avgShadowPercent'' = PFloat (Fin 50)
       \<and> response_metric resp ''coverageSource'' = PStr ''area'')
   \<and> (\<exists>resp. run_single planar (demo_ext [square_feature] [[(0, 0, 1, 2)]]) demo_defaults
              demo_request ''0123456789abcdef'' = ([BackendPost, ShadowEngine], Inr resp)
       \<and> response_metric resp ''avgShadowPercent'' = PFloat (Fin 50)
       \<and> response_metric resp ''coverageSource'' = PStr ''area'')"
proof -
  let ?ext = "demo_ext [square_feature] [[(0, 0, 1, 2)]]"
  obtain fs where fs: "analyse_samples planar [[(0, 0, 1, 2)]]
        \<lparr>west = 0, south = 0, east = 2, north = 2\<rparr> 3
     = Inr \<lparr>features = fs,
            metrics = \<lparr>sampleCount = 9, avgShadowPercent = 100 / 3,
                       avgSunlightHours = 23 / 3\<rparr>\<rparr>"
    and wf: "list_all well_formed_feature fs"
    using demo_samples by blast
  have hm: "make_heatmap fs =
    Inr (PDict [(''type'', PStr ''FeatureCollection''), (''features'', PList (map heat_of fs))])"
    using wf by (simp add: make_heatmap_def traverse_heatmap_item)
  have bb: "bbox demo_params = \<lparr>west = 0, south = 0, east = 2, north = 2\<rparr>"
    by (simp add: demo_params_def)
  obtain resp where m: "main planar ?ext demo_params 3 (PInt 0) ''0123456789abcdef''
      = ([BackendPost, ShadowEngine], Inr resp)"
    by (simp add: main_def demo_run_analysis bb demo_coverage fs hm)
  have rp: "run_single_params demo_defaults demo_request = demo_params"
    by (simp add: run_single_params_def demo_defaults_def demo_request_def demo_params_def
        str_or_def int_or_def rstrip_slash_def)
  have rg: "run_single_grid demo_defaults demo_request = 3"
    by (simp add: run_single_grid_def demo_defaults_def demo_request_def int_or_def)
  obtain resp' where s: "run_single planar ?ext demo_defaults demo_request ''0123456789abcdef''
      = ([BackendPost, ShadowEngine], Inr resp')"
    by (simp add: run_single_def rp rg demo_run_analysis bb demo_coverage fs hm)
  have rb: "req_bbox demo_request = \<lparr>west = 0, south = 0, east = 2, north = 2\<rparr>"
    by (simp add: demo_request_def)
  from response_reports_area_coverage
    [of planar ?ext demo_params 3 "PInt 0" "''0123456789abcdef''" "[BackendPost, ShadowEngine]"
        resp demo_defaults demo_request "[BackendPost, ShadowEngine]" resp'] m s
  show ?thesis
    by (auto simp: demo_run_analysis rp bb rb demo_coverage)
qed

section \<open>Filter geometry: the accepted shapes\<close>

lemma collect_geometries_members:
  assumes "length gs = length members"
    and "\<forall>k < length members. \<exists>d. members ! k = PDict d
           \<and> py_truthy (dict_get d ''geometry'')
           \<and> shape lib (dict_get d ''geometry'') = Inr (gs ! k)"
  shows "collect_geometries lib members = Inr gs"
  using assms
proof (induction members arbitrary: gs)
  case Nil
  then show ?case by simp
next
  case (Cons m ms)
  then obtain g gs' where gs: "gs = g # gs'" by (cases gs) auto
  from Cons.prems(2) [rule_format, of 0] obtain d where
    d: "m = PDict d" "py_truthy (dict_get d ''geometry'')"
       "shape lib (dict_get d ''geometry'') = Inr g"
    by (auto simp: gs)
  have rest: "\<forall>k < length ms. \<exists>d. ms ! k = PDict d
           \<and> py_truthy (dict_get d ''geometry'')
           \<and> shape lib (dict_get d ''geometry'') = Inr (gs' ! k)"
  proof (intro allI impI)
    fix k assume "k < length ms"
    then show "\<exists>d. ms ! k = PDict d \<and> py_truthy (dict_get d ''geometry'')
           \<and> shape lib (dict_get d ''geometry'') = Inr (gs' ! k)"
      using Cons.prems(2) [rule_format, of "Suc k"] by (simp add: gs)
  qed
  have "collect_geometries lib ms = Inr gs'"
    using Cons.IH [of gs'] Cons.prems(1) rest by (simp add: gs)
  then show ?case by (simp add: d gs)
qed

lemma collect_geometries_skips:
  assumes "\<forall>m \<in> set members. \<exists>d. m = PDict d \<and> \<not> py_truthy (dict_get d ''geometry'')"
  shows "collect_geometries lib members = Inr []"
  using assms by (induction members) auto

text \<open>
  Claim C8. \<open>normalize_geometry_obj\<close> returns \<^verbatim>\<open>None\<close> for \<^verbatim>\<open>None\<close>; the geometry member
  for a dict of type \<^verbatim>\<open>Feature\<close>; for a \<^verbatim>\<open>FeatureCollection\<close> the mapping of the union of
  the geometries its members yield (the shapes of all the members, when each has a
  geometry), and \<^verbatim>\<open>None\<close> when there is none, as for an empty or absent member list;
  the dict itself for any other dict with the keys \<^verbatim>\<open>type\<close> and \<^verbatim>\<open>coordinates\<close>; and it
  fails with \<open>UnsupportedGeometryKind\<close> on every other dict and on every value that is
  neither \<^verbatim>\<open>None\<close> nor a dict.
\<close>

theorem normalize_geometry_obj_cases:
  "normalize_geometry_obj lib PNone = Inr PNone
   \<and> (dict_get d ''type'' = PStr ''Feature'' \<longrightarrow>
        normalize_geometry_obj lib (PDict d) = Inr (dict_get d ''geometry''))
   \<and> (dict_get d ''type'' = PStr ''FeatureCollection''
        \<and> map_of d ''features'' = Some (PList members)
        \<and> collect_geometries lib members = Inr gs \<longrightarrow>
        normalize_geometry_obj lib (PDict d) =
          Inr (if gs = [] then PNone else mapping lib (unary_union lib gs)))
   \<and> (length gs = length members
        \<and> (\<forall>k < length members. \<exists>fd. members ! k = PDict fd
              \<and> py_truthy (dict_get fd ''geometry'')
              \<and> shape lib (dict_get fd ''geometry'') = Inr (gs ! k)) \<longrightarrow>
        collect_geometries lib members = Inr gs)
   \<and> (dict_get d ''type'' = PStr ''FeatureCollection''
        \<and> (map_of d ''features'' = None \<or> map_of d ''features'' = Some (PList [])) \<longrightarrow>
        normalize_geometry_obj lib (PDict d) = Inr PNone)
   \<and> (dict_get d ''type'' \<noteq> PStr ''Feature'' \<and> dict_get d ''type'' \<noteq> PStr ''FeatureCollection''
        \<and> map_of d ''type'' \<noteq> None \<and> map_of d ''coordinates'' \<noteq> None \<longrightarrow>
        normalize_geometry_obj lib (PDict d) = Inr (PDict d))
   \<and> (dict_get d ''type'' \<noteq> PStr ''Feature'' \<and> dict_get d ''type'' \<noteq> PStr ''FeatureCollection''
        \<and> (map_of d ''type'' = None \<or> map_of d ''coordinates'' = None) \<longrightarrow>
        normalize_geometry_obj lib (PDict d) = Inl UnsupportedGeometryKind)
   \<and> (v \<noteq> PNone \<and> (\<forall>d'. v \<noteq> PDict d') \<longrightarrow>
        normalize_geometry_obj lib v = Inl UnsupportedGeometryKind)"
proof -
  have members: "collect_geometries lib members = Inr gs"
    if "length gs = length members"
       "\<forall>k < length members. \<exists>fd. members ! k = PDict fd
              \<and> py_truthy (dict_get fd ''geometry'')
              \<and> shape lib (dict_get fd ''geometry'') = Inr (gs ! k)"
    using that by (rule collect_geometries_members)
  have other: "normalize_geometry_obj lib v = Inl UnsupportedGeometryKind"
    if "v \<noteq> PNone" "\<forall>d'. v \<noteq> PDict d'"
    using that by (cases v) (simp_all add: normalize_geometry_obj_def)
  show ?thesis
    using members other
    by (auto simp: normalize_geometry_obj_def)
qed

lemma planar_shape_ring:
  "x0 \<le> x1 \<Longrightarrow> y0 \<le> y1 \<Longrightarrow>
   planar_shape (PDict [(''type'', PStr ''Polygon''), (''coordinates'', ring_of (x0, y0, x1, y1))])
     = Inr [(x0, y0, x1, y1)]"
  by (simp add: planar_shape_def ring_of_def dict_get_def)

theorem normalize_geometry_obj_cases_witness:
  "normalize_geometry_obj planar
      (PDict [(''type'', PStr ''Feature''), (''geometry'', near_polygon)]) = Inr near_polygon
   \<and> normalize_geometry_obj planar
      (PDict [(''type'', PStr ''FeatureCollection''),
              (''features'', PList [PDict [(''type'', PStr ''Feature''), (''geometry'', near_polygon)],
                                     PDict [(''type'', PStr ''Feature''), (''geometry'', far_polygon)]])])
       = Inr (mapping planar (unary_union planar [[(0, 0, 1, 1)], [(5, 5, 6, 6)]]))
   \<and> normalize_geometry_obj planar
      (PDict [(''type'', PStr ''FeatureCollection''), (''features'', PList [])]) = Inr PNone
   \<and> normalize_geometry_obj planar near_polygon = Inr near_polygon
   \<and> normalize_geometry_obj planar (PDict [(''type'', PStr ''Polygon'')])
       = Inl UnsupportedGeometryKind
   \<and> normalize_geometry_obj planar (PList []) = Inl UnsupportedGeometryKind"
proof -
  let ?members = "[PDict [(''type'', PStr ''Feature''), (''geometry'', near_polygon)],
                   PDict [(''type'', PStr ''Feature''), (''geometry'', far_polygon)]]"
  let ?fc = "[(''type'', PStr ''FeatureCollection''), (''features'', PList ?members)]"
  have shapes: "shape planar near_polygon = Inr [(0, 0, 1, 1)]"
      "shape planar far_polygon = Inr [(5, 5, 6, 6)]"
    by (simp_all add: planar_def near_polygon_def far_polygon_def planar_shape_ring)
  have truthy: "py_truthy near_polygon" "py_truthy far_polygon"
    by (simp_all add: near_polygon_def far_polygon_def)
  have col: "collect_geometries planar ?members = Inr [[(0, 0, 1, 1)], [(5, 5, 6, 6)]]"
    by (simp add: dict_get_def shapes truthy)
  have t1: "dict_get ?fc ''type'' = PStr ''FeatureCollection''" by (simp add: dict_get_def)
  have t2: "map_of ?fc ''features'' = Some (PList ?members)" by simp
  note inst = normalize_geometry_obj_cases [where lib = planar and d = ?fc and members = ?members
      and gs = "[[(0, 0, 1, 1)], [(5, 5, 6, 6)]]" and v = "PList []"]
  from inst t1 t2 col have fc: "normalize_geometry_obj planar (PDict ?fc)
       = Inr (mapping planar (unary_union planar [[(0, 0, 1, 1)], [(5, 5, 6, 6)]]))"
    by simp
  from inst have lst: "normalize_geometry_obj planar (PList []) = Inl UnsupportedGeometryKind"
    by simp
  show ?thesis
    using fc lst
    by (simp add: normalize_geometry_obj_def dict_get_def near_polygon_def)
qed

section \<open>No buildings\<close>

lemma run_analysis_building_set:
  "run_analysis lib ext params =
     (case building_set lib ext params of
        Inl e \<Rightarrow> ([BackendPost], Inl e)
      | Inr buildings_gdf \<Rightarrow>
          if buildings_gdf = [] then ([BackendPost], Inl NoBuildingsError)
          else
            (case generate_shadows ext buildings_gdf (timestamp params) (timezone params) of
               (calls, Inl e) \<Rightarrow> (BackendPost # calls, Inl e)
             | (calls, Inr shadows_gdf) \<Rightarrow>
                 (BackendPost # calls,
                  Inr \<lparr>buildings = buildings_gdf, shadows = shadows_gdf\<rparr>)))"
  unfolding run_analysis_def building_set_def fetch_buildings_def
  by (simp split: sum.splits prod.splits)

lemma run_analysis_empty:
  assumes "building_set lib ext params = Inr []"
  shows "run_analysis lib ext params = ([BackendPost], Inl NoBuildingsError)"
  using assms by (simp add: run_analysis_building_set)

lemma run_analysis_engine_called:
  assumes "ShadowEngine \<in> set (fst (run_analysis lib ext params))"
  shows "\<exists>bs. building_set lib ext params = Inr bs \<and> bs \<noteq> []"
  using assms unfolding run_analysis_building_set generate_shadows_def
  by (auto split: sum.splits if_splits prod.splits)

text \<open>
  Claim C9. When the building set (fetched, converted, and filtered when the request
  has a filter geometry) is empty, \<open>run_analysis\<close> fails with \<open>NoBuildingsError\<close>
  after the one call to the backend and without a call to the shadow engine, and
  \<open>main\<close> and \<open>run_single\<close> end with that error and that single call: nothing is
  retried. Conversely the shadow engine is only ever called on a building set that is
  not empty.
\<close>

theorem no_buildings_is_terminal:
  "(building_set lib ext params = Inr [] \<longrightarrow>
      run_analysis lib ext params = ([BackendPost], Inl NoBuildingsError)
      \<and> ShadowEngine \<notin> set (fst (run_analysis lib ext params))
      \<and> main lib ext params grid latency uuid_hex = ([BackendPost], Inl NoBuildingsError))
   \<and> (building_set lib ext (run_single_params dflt payload) = Inr [] \<longrightarrow>
      run_single lib ext dflt payload uuid_hex = ([BackendPost], Inl NoBuildingsError))
   \<and> (ShadowEngine \<in> set (fst (run_analysis lib ext params)) \<longrightarrow>
      (\<exists>bs. building_set lib ext params = Inr bs \<and> bs \<noteq> []))"
proof -
  have a: "run_analysis lib ext params = ([BackendPost], Inl NoBuildingsError)
      \<and> ShadowEngine \<notin> set (fst (run_analysis lib ext params))
      \<and> main lib ext params grid latency uuid_hex = ([BackendPost], Inl NoBuildingsError)"
    if "building_set lib ext params = Inr []"
    using run_analysis_empty [OF that] by (simp add: main_def)
  have b: "run_single lib ext dflt payload uuid_hex = ([BackendPost], Inl NoBuildingsError)"
    if "building_set lib ext (run_single_params dflt payload) = Inr []"
    using run_analysis_empty [OF that] by (simp add: run_single_def)
  from a b run_analysis_engine_called show ?thesis by blast
qed

theorem no_buildings_is_terminal_witness:
  "building_set planar (demo_ext [] [[(0, 0, 1, 2)]]) demo_params = Inr []
   \<and> run_analysis planar (demo_ext [] [[(0, 0, 1, 2)]]) demo_params
       = ([BackendPost], Inl NoBuildingsError)
   \<and> building_set planar (demo_ext [square_feature] [[(0, 0, 1, 2)]])
        (demo_params\<lparr>geometry := far_polygon\<rparr>) = Inr []
   \<and> main planar (demo_ext [square_feature] [[(0, 0, 1, 2)]])
        (demo_params\<lparr>geometry := far_polygon\<rparr>) 6 (PInt 0) ''0123456789abcdef''
       = ([BackendPost], Inl NoBuildingsError)"
proof -
  have e1: "building_set planar (demo_ext [] [[(0, 0, 1, 2)]]) demo_params = Inr []"
    by (simp add: orchestration_simps demo_params_def)
  have e2: "building_set planar (demo_ext [square_feature] [[(0, 0, 1, 2)]])
        (demo_params\<lparr>geometry := far_polygon\<rparr>) = Inr []"
    by (simp add: orchestration_simps demo_params_def far_polygon_def planar_simps)
  from e1 e2
    no_buildings_is_terminal [where lib = planar and ext = "demo_ext [] [[(0, 0, 1, 2)]]"
      and params = demo_params]
    no_buildings_is_terminal [where lib = planar
      and ext = "demo_ext [square_feature] [[(0, 0, 1, 2)]]"
      and params = "demo_params\<lparr>geometry := far_polygon\<rparr>"
      and grid = 6 and latency = "PInt 0" and uuid_hex = "''0123456789abcdef''"]
  show ?thesis by blast
qed

section \<open>A feature without geometry is no filter\<close>

text \<open>
  Claim C10. A dict of type \<^verbatim>\<open>Feature\<close> whose geometry is \<^verbatim>\<open>None\<close> or absent normalizes
  to \<^verbatim>\<open>None\<close>, and so does a \<^verbatim>\<open>FeatureCollection\<close> whose members all lack a geometry;
  neither fails. \<open>validate_payload\<close> then stores \<^verbatim>\<open>None\<close> as the geometry of the
  request, and with that geometry the building set is the converted fetch result, with
  no filter applied.
\<close>

theorem missing_geometry_is_no_filter:
  "(dict_get d ''type'' = PStr ''Feature'' \<and> dict_get d ''geometry'' = PNone \<longrightarrow>
      normalize_geometry_obj lib (PDict d) = Inr PNone)
   \<and> (dict_get d ''type'' = PStr ''FeatureCollection''
        \<and> map_of d ''features'' = Some (PList members)
        \<and> (\<forall>m \<in> set members. \<exists>fd. m = PDict fd \<and> dict_get fd ''geometry'' = PNone) \<longrightarrow>
      normalize_geometry_obj lib (PDict d) = Inr PNone)
   \<and> (map_of payload ''geometry'' = Some (PDict d)
        \<and> normalize_geometry_obj lib (PDict d) = Inr PNone \<longrightarrow>
      validate_payload_geometry lib (PDict payload) = Inr PNone)
   \<and> (geometry params = PNone \<longrightarrow>
      building_set lib ext params =
        (case snd (fetch_buildings ext (bbox params) (backend_url params)
                     (max_features params)) of
           Inl e \<Rightarrow> Inl e
         | Inr raw \<Rightarrow>
             (case py_get_default raw ''features'' (PList []) of
                Inl e \<Rightarrow> Inl e
              | Inr fs \<Rightarrow> features_to_gdf lib fs)))"
proof -
  have fc: "normalize_geometry_obj lib (PDict d) = Inr PNone"
    if "dict_get d ''type'' = PStr ''FeatureCollection''"
       "map_of d ''features'' = Some (PList members)"
       "\<forall>m \<in> set members. \<exists>fd. m = PDict fd \<and> dict_get fd ''geometry'' = PNone"
  proof -
    from that(3) have "\<forall>m \<in> set members. \<exists>fd. m = PDict fd
        \<and> \<not> py_truthy (dict_get fd ''geometry'')"
      by fastforce
    then have "collect_geometries lib members = Inr []" by (rule collect_geometries_skips)
    then show ?thesis using that(1,2) by (simp add: normalize_geometry_obj_def)
  qed
  have vp: "validate_payload_geometry lib (PDict payload) = Inr PNone"
    if "map_of payload ''geometry'' = Some (PDict d)"
       "normalize_geometry_obj lib (PDict d) = Inr PNone"
    using that by (simp add: validate_payload_geometry_def dict_get_def)
  have bs: "building_set lib ext params =
        (case snd (fetch_buildings ext (bbox params) (backend_url params)
                     (max_features params)) of
           Inl e \<Rightarrow> Inl e
         | Inr raw \<Rightarrow>
             (case py_get_default raw ''features'' (PList []) of
                Inl e \<Rightarrow> Inl e
              | Inr fs \<Rightarrow> features_to_gdf lib fs))"
    if "geometry params = PNone"
    using that by (simp add: building_set_def split: sum.splits)
  have ft: "normalize_geometry_obj lib (PDict d) = Inr PNone"
    if "dict_get d ''type'' = PStr ''Feature''" "dict_get d ''geometry'' = PNone"
    using that by (simp add: normalize_geometry_obj_def)
  from fc vp bs ft show ?thesis by blast
qed

theorem missing_geometry_is_no_filter_witness:
  "normalize_geometry_obj planar (PDict [(''type'', PStr ''Feature'')]) = Inr PNone
   \<and> normalize_geometry_obj planar
        (PDict [(''type'', PStr ''Feature''), (''geometry'', PNone)]) = Inr PNone
   \<and> normalize_geometry_obj planar
        (PDict [(''type'', PStr ''FeatureCollection''),
                (''features'', PList [PDict [(''type'', PStr ''Feature'')],
                                       PDict [(''type'', PStr ''Feature''), (''geometry'', PNone)]])])
       = Inr PNone
   \<and> validate_payload_geometry planar
        (PDict [(''geometry'', PDict [(''type'', PStr ''Feature''), (''geometry'', PNone)])])
       = Inr PNone
   \<and> building_set planar (demo_ext [square_feature] [[(0, 0, 1, 2)]]) demo_params
       = Inr [([(0, 0, 1, 1)], [(''levels'', PInt 4), (''height_m'', PFloat (Fin 14))])]"
proof -
  let ?f1 = "[(''type'', PStr ''Feature'')]"
  let ?f2 = "[(''type'', PStr ''Feature''), (''geometry'', PNone)]"
  let ?members = "[PDict ?f1, PDict ?f2]"
  let ?fc = "[(''type'', PStr ''FeatureCollection''), (''features'', PList ?members)]"
  let ?ext = "demo_ext [square_feature] [[(0, 0, 1, 2)]]"
  have n1: "normalize_geometry_obj planar (PDict ?f1) = Inr PNone"
    using missing_geometry_is_no_filter [where lib = planar and d = ?f1 and members = "[]"
      and payload = "[]" and params = demo_params and ext = ?ext]
    by (simp add: dict_get_def)
  have n2: "normalize_geometry_obj planar (PDict ?f2) = Inr PNone"
    using missing_geometry_is_no_filter [where lib = planar and d = ?f2 and members = "[]"
      and payload = "[(''geometry'', PDict ?f2)]" and params = demo_params and ext = ?ext]
    by (simp add: dict_get_def)
  have v: "validate_payload_geometry planar (PDict [(''geometry'', PDict ?f2)]) = Inr PNone"
    using missing_geometry_is_no_filter [where lib = planar and d = ?f2 and members = "[]"
      and payload = "[(''geometry'', PDict ?f2)]" and params = demo_params and ext = ?ext] n2
    by simp
  have n3: "normalize_geometry_obj planar (PDict ?fc) = Inr PNone"
    using missing_geometry_is_no_filter [where lib = planar and d = ?fc and members = ?members
      and payload = "[]" and params = demo_params and ext = ?ext]
    by (simp add: dict_get_def)
  have b: "building_set planar ?ext demo_params
       = Inr [([(0, 0, 1, 1)], [(''levels'', PInt 4), (''height_m'', PFloat (Fin 14))])]"
    using missing_geometry_is_no_filter [where lib = planar and d = ?f1 and members = "[]"
      and payload = "[]" and params = demo_params and ext = ?ext]
    by (simp add: orchestration_simps demo_params_def planar_def)
  from n1 n2 n3 v b show ?thesis by blast
qed

end
